theory Spec2Isabelle
  imports Main
begin

section \<open>Errors\<close>

text \<open>
  The exceptions that the modelled code can raise: those Python raises on a bad index,
  attribute, key or argument, the JSON decoder's, the document store driver's, the graph
  runtime's, and whatever else a collaborator (the language model, the event stream) raises.
\<close>

datatype error =
    IndexError
  | AttributeError
  | KeyError
  | ValueError
  | JSONDecodeError
  | InvalidDocument
  | WriteError
  | GraphRecursionError
  | Raised string

section \<open>Values, documents and the students collection\<close>

text \<open>
  The tools of \<^verbatim>\<open>backend/tools.py\<close> declare every argument as \<^verbatim>\<open>str\<close>; the HTTP
  layer hands them \<^verbatim>\<open>data.get(key)\<close>, which is \<^verbatim>\<open>None\<close> for an absent key. A Python
  value is therefore a string or \<^verbatim>\<open>None\<close>.
\<close>

type_synonym pyval = "string option"

text \<open>\<^verbatim>\<open>{v}\<close> inside an f-string: \<^verbatim>\<open>str(v)\<close>.\<close>

definition fmt :: "pyval \<Rightarrow> string" where
  "fmt v = (case v of None \<Rightarrow> ''None'' | Some s \<Rightarrow> s)"

text \<open>\<^verbatim>\<open>str(n)\<close> of a non-negative count: its decimal digits.\<close>

fun str_nat :: "nat \<Rightarrow> string" where
  "str_nat n = (if n < 10 then [''0123456789'' ! n]
                else str_nat (n div 10) @ [''0123456789'' ! (n mod 10)])"

declare str_nat.simps [simp del]

text \<open>
  A document of the store is a Python dict with insertion order: an association list with
  distinct keys. The store's own \<^verbatim>\<open>_id\<close> field is left out: every read of a document in
  \<^verbatim>\<open>tools.py\<close> either projects it away (\<^verbatim>\<open>{"_id": 0}\<close>) or only tests the result.
  The collection is the list of its documents in natural (insertion) order.
  \<^verbatim>\<open>students_collection\<close> is the module-level handle: \<^verbatim>\<open>None\<close> when the connection
  failed at start-up.
\<close>

type_synonym document = "(string \<times> pyval) list"
type_synonym collection = "document list"
type_synonym students_collection = "collection option"

subsection \<open>The operations of the document store that the tools call\<close>

text \<open>
  The document store is an external collaborator. Its operations are modelled as they act on
  flat documents of string fields: an equality filter on one field (a filter value \<^verbatim>\<open>None\<close>
  also matches a document without the field), insertion at the end, deletion of the first
  match, the count and \<^verbatim>\<open>$group\<close> with \<^verbatim>\<open>{"$sum": 1}\<close>. The update with
  \<^verbatim>\<open>$set\<close> comes after them.
\<close>

definition matches :: "string \<Rightarrow> pyval \<Rightarrow> document \<Rightarrow> bool" where
  "matches k v d = (case map_of d k of None \<Rightarrow> v = None | Some x \<Rightarrow> x = v)"

definition find_one :: "collection \<Rightarrow> string \<Rightarrow> pyval \<Rightarrow> document option" where
  "find_one c k v = find (matches k v) c"

definition insert_one :: "collection \<Rightarrow> document \<Rightarrow> collection" where
  "insert_one c d = c @ [d]"

text \<open>\<^verbatim>\<open>d[k] = v\<close> on a dict: an existing key keeps its place, a new key goes last.\<close>

fun set_item :: "'k \<Rightarrow> 'v \<Rightarrow> ('k \<times> 'v) list \<Rightarrow> ('k \<times> 'v) list" where
  "set_item k v [] = [(k, v)]"
| "set_item k v ((k', v') # r) = (if k = k' then (k, v) # r else (k', v') # set_item k v r)"

text \<open>\<^verbatim>\<open>delete_one(filter)\<close>: the deleted count and the new collection.\<close>

fun delete_one :: "collection \<Rightarrow> string \<Rightarrow> pyval \<Rightarrow> nat \<times> collection" where
  "delete_one [] k q = (0, [])"
| "delete_one (d # ds) k q =
     (if matches k q d then (1, ds)
      else (case delete_one ds k q of (n, ds') \<Rightarrow> (n, d # ds')))"

definition count_documents :: "collection \<Rightarrow> nat" where
  "count_documents c = length c"

text \<open>
  \<^verbatim>\<open>aggregate([{"$group": {"_id": "$field", "count": {"$sum": 1}}}])\<close>: one result per
  distinct value of the field, a missing field grouped under \<^verbatim>\<open>None\<close>.
\<close>

fun bump :: "'k \<Rightarrow> ('k \<times> nat) list \<Rightarrow> ('k \<times> nat) list" where
  "bump k [] = [(k, 1)]"
| "bump k ((k', n) # r) = (if k = k' then (k', Suc n) # r else (k', n) # bump k r)"

definition field_value :: "string \<Rightarrow> document \<Rightarrow> pyval" where
  "field_value k d = (case map_of d k of None \<Rightarrow> None | Some v \<Rightarrow> v)"

definition aggregate_group_count :: "collection \<Rightarrow> string \<Rightarrow> (pyval \<times> nat) list" where
  "aggregate_group_count c k = foldl (\<lambda>acc d. bump (field_value k d) acc) [] c"

subsection \<open>Setting a field by its path\<close>

text \<open>
  \<^verbatim>\<open>update_one(filter, {"$set": {field: value}})\<close>. The store reads the field name as a
  path of names separated by dots. A name with a NUL character cannot be encoded by the driver,
  and an empty name is refused by the store, whatever the filter matches. On the first match,
  a path that starts at \<^verbatim>\<open>_id\<close> or has a name starting with \<^verbatim>\<open>$\<close> is refused; otherwise
  the value is written at the path, through objects that are there, making the objects that
  are missing, and refused where the path runs into a value that is not an object. The
  document written may therefore hold objects, which the documents above do not.
\<close>

datatype bson = BNull | BStr string | BDoc "(string \<times> bson) list"

type_synonym bson_document = "(string \<times> bson) list"

definition bson_of_pyval :: "pyval \<Rightarrow> bson" where
  "bson_of_pyval v = (case v of None \<Rightarrow> BNull | Some s \<Rightarrow> BStr s)"

definition bson_of_document :: "document \<Rightarrow> bson_document" where
  "bson_of_document d = map (\<lambda>(k, v). (k, bson_of_pyval v)) d"

fun split_dots :: "string \<Rightarrow> string list" where
  "split_dots [] = [[]]"
| "split_dots (c # cs) =
     (if c = CHR ''.'' then [] # split_dots cs
      else (case split_dots cs of [] \<Rightarrow> [[c]] | seg # segs \<Rightarrow> (c # seg) # segs))"

fun set_path :: "string list \<Rightarrow> bson \<Rightarrow> bson_document \<Rightarrow> error + bson_document" where
  "set_path [] v d = Inl WriteError"
| "set_path [k] v d = Inr (set_item k v d)"
| "set_path (k # k' # ks) v d =
     (case map_of d k of
        None \<Rightarrow>
          (case set_path (k' # ks) v [] of
             Inl e \<Rightarrow> Inl e
           | Inr sub \<Rightarrow> Inr (set_item k (BDoc sub) d))
      | Some (BDoc sub) \<Rightarrow>
          (case set_path (k' # ks) v sub of
             Inl e \<Rightarrow> Inl e
           | Inr sub' \<Rightarrow> Inr (set_item k (BDoc sub') d))
      | Some _ \<Rightarrow> Inl WriteError)"

definition apply_set :: "string list \<Rightarrow> pyval \<Rightarrow> document \<Rightarrow> error + bson_document" where
  "apply_set path v d =
     (case path of
        [] \<Rightarrow> Inl WriteError
      | seg # _ \<Rightarrow>
          if seg = ''_id'' \<or> list_ex (\<lambda>s. take 1 s = ''$'') path then Inl WriteError
          else set_path path (bson_of_pyval v) (bson_of_document d))"

fun update_first ::
  "collection \<Rightarrow> string \<Rightarrow> pyval \<Rightarrow> (document \<Rightarrow> error + bson_document)
     \<Rightarrow> error + nat \<times> bson_document list" where
  "update_first [] k q upd = Inr (0, [])"
| "update_first (d # ds) k q upd =
     (if matches k q d
      then (case upd d of
              Inl e \<Rightarrow> Inl e
            | Inr d' \<Rightarrow> Inr (1, d' # map bson_of_document ds))
      else (case update_first ds k q upd of
              Inl e \<Rightarrow> Inl e
            | Inr (n, ds') \<Rightarrow> Inr (n, bson_of_document d # ds')))"

text \<open>The matched count and the collection after, or the error raised.\<close>

definition update_one ::
  "collection \<Rightarrow> string \<Rightarrow> pyval \<Rightarrow> string \<Rightarrow> pyval \<Rightarrow> error + nat \<times> bson_document list" where
  "update_one c k q field v =
     (let path = split_dots field
      in if list_ex (\<lambda>seg. CHR 0x00 \<in> set seg) path then Inl InvalidDocument
         else if list_ex (\<lambda>seg. seg = []) path then Inl WriteError
         else update_first c k q (apply_set path v))"

text \<open>
  A field name that the store takes as one plain key: not empty, without a dot or a NUL
  character, not starting with \<^verbatim>\<open>$\<close>, and not \<^verbatim>\<open>_id\<close>.
\<close>

definition plain_key :: "string \<Rightarrow> bool" where
  "plain_key field =
     (field \<noteq> [] \<and> CHR ''.'' \<notin> set field \<and> CHR 0x00 \<notin> set field \<and>
      take 1 field \<noteq> ''$'' \<and> field \<noteq> ''_id'')"

subsection \<open>Strings the tools return\<close>

text \<open>
  A tool returns a Python string. A string produced by \<^verbatim>\<open>json.dumps(v, indent=2)\<close> is kept
  as the value that was encoded; every other string is kept as its characters.
\<close>

datatype json =
    JNull
  | JStr string
  | JInt int
  | JArr "json list"
  | JObj "(string \<times> json) list"

datatype reply = Text string | Dumps json

definition json_of_pyval :: "pyval \<Rightarrow> json" where
  "json_of_pyval v = (case v of None \<Rightarrow> JNull | Some s \<Rightarrow> JStr s)"

definition json_of_document :: "document \<Rightarrow> json" where
  "json_of_document d = JObj (map (\<lambda>(k, v). (k, json_of_pyval v)) d)"

text \<open>A dict key that is \<^verbatim>\<open>None\<close> is written \<^verbatim>\<open>"null"\<close> by \<^verbatim>\<open>json.dumps\<close>.\<close>

definition json_key :: "pyval \<Rightarrow> string" where
  "json_key k = (case k of None \<Rightarrow> ''null'' | Some s \<Rightarrow> s)"

text \<open>\<^verbatim>\<open>s.startswith("Error")\<close>; the encoding of a dict or a list starts with a bracket.\<close>

fun startswith_Error :: "reply \<Rightarrow> bool" where
  "startswith_Error (Text s) = (take 5 s = ''Error'')"
| "startswith_Error (Dumps j) = False"

section \<open>The student tools (\<^verbatim>\<open>backend/tools.py\<close>)\<close>

text \<open>
  Each tool takes the collection handle and returns its string and the handle after the call.
  In \<^verbatim>\<open>add_student\<close> the document that \<^verbatim>\<open>find_one\<close> returns is read without a
  projection, so it is truthy whenever there is one; in \<^verbatim>\<open>get_student\<close> it is read
  with \<^verbatim>\<open>_id\<close> projected away, so it is truthy when it has a field.
\<close>

definition db_failed :: reply where
  "db_failed = Text ''Error: Database connection failed.''"

definition list_students :: "students_collection \<Rightarrow> reply" where
  "list_students sc =
     (case sc of None \<Rightarrow> db_failed
      | Some c \<Rightarrow> Dumps (JArr (map json_of_document c)))"

definition get_student :: "students_collection \<Rightarrow> pyval \<Rightarrow> reply" where
  "get_student sc sid =
     (case sc of None \<Rightarrow> db_failed
      | Some c \<Rightarrow>
          (case find_one c ''id'' sid of
             Some student \<Rightarrow>
               if student \<noteq> [] then Dumps (json_of_document student)
               else Text (''Error: No student found with ID '' @ fmt sid @ ''.'')
           | None \<Rightarrow> Text (''Error: No student found with ID '' @ fmt sid @ ''.'')))"

definition add_student ::
  "students_collection \<Rightarrow> pyval \<Rightarrow> pyval \<Rightarrow> pyval \<Rightarrow> pyval \<Rightarrow> reply \<times> students_collection" where
  "add_student sc sid name department email =
     (case sc of None \<Rightarrow> (db_failed, sc)
      | Some c \<Rightarrow>
          if find_one c ''id'' sid \<noteq> None
          then (Text (''Error: Student with ID '' @ fmt sid @ '' already exists.''), sc)
          else
            let new_student = [(''id'', sid), (''name'', name),
                               (''department'', department), (''email'', email)]
            in (Text (''Success: Student '' @ fmt name @ '' with ID '' @ fmt sid
                       @ '' has been added.''),
                Some (insert_one c new_student)))"
text \<open>
  \<^verbatim>\<open>update_student\<close> has no handler of its own: what \<^verbatim>\<open>update_one\<close> raises, it raises.
\<close>

definition update_student ::
  "students_collection \<Rightarrow> pyval \<Rightarrow> string \<Rightarrow> pyval
     \<Rightarrow> error + reply \<times> bson_document list option" where
  "update_student sc sid field new_value =
     (case sc of None \<Rightarrow> Inr (db_failed, None)
      | Some c \<Rightarrow>
          (case update_one c ''id'' sid field new_value of
             Inl e \<Rightarrow> Inl e
           | Inr (matched_count, c') \<Rightarrow>
               if matched_count = 0
               then Inr (Text (''Error: No student found with ID '' @ fmt sid @ ''.''), Some c')
               else Inr (Text (''Success: Student with ID '' @ fmt sid
                               @ '' updated successfully.''),
                         Some c')))"

definition delete_student :: "students_collection \<Rightarrow> pyval \<Rightarrow> reply \<times> students_collection" where
  "delete_student sc sid =
     (case sc of None \<Rightarrow> (db_failed, sc)
      | Some c \<Rightarrow>
          (case delete_one c ''id'' sid of
             (deleted_count, c') \<Rightarrow>
               if deleted_count = 0
               then (Text (''Error: No student found with ID '' @ fmt sid @ ''.''), Some c')
               else (Text (''Success: Student with ID '' @ fmt sid @ '' has been deleted.''),
                     Some c')))"

definition get_total_students :: "students_collection \<Rightarrow> reply" where
  "get_total_students sc =
     (case sc of None \<Rightarrow> db_failed
      | Some c \<Rightarrow> Text (str_nat (count_documents c)))"

text \<open>\<^verbatim>\<open>{item['_id']: item['count'] for item in results}\<close>: a later item with a key already
  present overwrites its count.\<close>

definition dict_of_items :: "('k \<times> 'v) list \<Rightarrow> ('k \<times> 'v) list" where
  "dict_of_items items = foldl (\<lambda>acc (k, v). set_item k v acc) [] items"

definition get_students_by_department :: "students_collection \<Rightarrow> reply" where
  "get_students_by_department sc =
     (case sc of None \<Rightarrow> db_failed
      | Some c \<Rightarrow>
          let results = aggregate_group_count c ''department'';
              dept_counts = dict_of_items results
          in Dumps (JObj (map (\<lambda>(k, n). (json_key k, JInt (int n))) dept_counts)))"

text \<open>The counts inside an encoded object, in order.\<close>

fun counts_of :: "reply \<Rightarrow> int list" where
  "counts_of (Dumps (JObj kvs)) = concat (map (\<lambda>(k, v). case v of JInt n \<Rightarrow> [n] | _ \<Rightarrow> []) kvs)"
| "counts_of _ = []"

text \<open>The seed data of \<^verbatim>\<open>populate_db_with_mock_data\<close>: the collection is emptied, then filled.\<close>

definition mock_students :: collection where
  "mock_students =
     [[(''id'', Some ''23-1001''), (''name'', Some ''Ayesha Khan''),
       (''department'', Some ''Computer Science''), (''email'', Some ''ayesha@saylani.edu'')],
      [(''id'', Some ''23-1002''), (''name'', Some ''Usman Ali''),
       (''department'', Some ''Software Engineering''), (''email'', Some ''usman@saylani.edu'')],
      [(''id'', Some ''23-1003''), (''name'', Some ''Fatima Rehman''),
       (''department'', Some ''Data Science''), (''email'', Some ''fatima@saylani.edu'')],
      [(''id'', Some ''23-1004''), (''name'', Some ''Bilal Ahmed''),
       (''department'', Some ''Computer Science''), (''email'', Some ''bilal@saylani.edu'')],
      [(''id'', Some ''23-1005''), (''name'', Some ''Sana Ejaz''),
       (''department'', Some ''Software Engineering''), (''email'', Some ''sana@saylani.edu'')]]"

definition populate_db_with_mock_data :: "students_collection \<Rightarrow> students_collection" where
  "populate_db_with_mock_data sc =
     (case sc of None \<Rightarrow> None | Some c \<Rightarrow> Some (foldl insert_one [] mock_students))"

section \<open>The create endpoint (\<^verbatim>\<open>backend/main.py\<close>)\<close>

text \<open>
  \<^verbatim>\<open>json.loads\<close> on a tool's string. The encoding of a value decodes to that value. On any
  other string the decoder skips white space and raises unless the next character can start a
  JSON value; what it does after that first character is left to \<open>decode\<close>.
\<close>

definition json_whitespace :: "char list" where
  "json_whitespace = [CHR '' '', CHR 0x09, CHR 0x0A, CHR 0x0D]"

definition json_value_start :: "char list" where
  "json_value_start = CHR 0x22 # ''{[-0123456789tfnNI''"

definition json_loads :: "(string \<Rightarrow> error + json) \<Rightarrow> reply \<Rightarrow> error + json" where
  "json_loads decode r =
     (case r of
        Dumps j \<Rightarrow> Inr j
      | Text s \<Rightarrow>
          (case dropWhile (\<lambda>c. c \<in> set json_whitespace) s of
             [] \<Rightarrow> Inl JSONDecodeError
           | c # _ \<Rightarrow> if c \<in> set json_value_start then decode s else Inl JSONDecodeError))"

text \<open>\<^verbatim>\<open>data.get(key)\<close> on the request's JSON object.\<close>

definition dict_get :: "(string \<times> pyval) list \<Rightarrow> string \<Rightarrow> pyval" where
  "dict_get data k = (case map_of data k of None \<Rightarrow> None | Some v \<Rightarrow> v)"

text \<open>
  A response: its status code and its content, which is \<^verbatim>\<open>{"error": result}\<close> for a tool's
  string, \<^verbatim>\<open>{"error": str(e)}\<close> for a caught exception, or a decoded value.
\<close>

datatype content = Error_content reply | Exception_content error | Json_content json

record response =
  status_code :: nat
  content :: content

text \<open>
  \<^verbatim>\<open>POST /students\<close>, for a request whose body is a JSON object of strings. The four values
  are passed to \<^verbatim>\<open>add_student\<close> by position, as the source passes them.
\<close>

definition add_new_student ::
  "(string \<Rightarrow> error + json) \<Rightarrow> students_collection \<Rightarrow> (string \<times> pyval) list
     \<Rightarrow> response \<times> students_collection" where
  "add_new_student decode sc data =
     (case add_student sc (dict_get data ''name'') (dict_get data ''department'')
             (dict_get data ''year'') (dict_get data ''email'') of
        (result, sc') \<Rightarrow>
          if startswith_Error result
          then (\<lparr>status_code = 400, content = Error_content result\<rparr>, sc')
          else (case json_loads decode result of
                  Inr v \<Rightarrow> (\<lparr>status_code = 201, content = Json_content v\<rparr>, sc')
                | Inl e \<Rightarrow> (\<lparr>status_code = 500, content = Exception_content e\<rparr>, sc')))"

section \<open>The streaming endpoint (\<^verbatim>\<open>backend/main.py\<close>)\<close>

text \<open>
  An event of \<^verbatim>\<open>agent_app.astream_events(..., version="v1")\<close>. Its name is made of the
  type of the run it reports and of the phase of that run, as
  \<^verbatim>\<open>on_<run type>_<start | stream | end>\<close>: \<^verbatim>\<open>on_chain_start\<close>, \<^verbatim>\<open>on_chat_model_stream\<close>,
  \<^verbatim>\<open>on_tool_end\<close>. The text it carries is the chunk's content for
  \<^verbatim>\<open>on_chat_model_stream\<close> and \<^verbatim>\<open>str\<close> of the output for \<^verbatim>\<open>on_tool_end\<close>.
\<close>

datatype phase = Start | Stream | End

fun phase_name :: "phase \<Rightarrow> string" where
  "phase_name Start = ''start''"
| "phase_name Stream = ''stream''"
| "phase_name End = ''end''"

record event =
  run_type :: string
  phase :: phase
  payload :: string

text \<open>\<^verbatim>\<open>kind = event["event"]\<close>.\<close>

definition kind :: "event \<Rightarrow> string" where
  "kind ev = ''on_'' @ run_type ev @ ''_'' @ phase_name (phase ev)"

text \<open>
  A frame is \<^verbatim>\<open>data: <json>\<close> followed by a blank line, or the literal \<^verbatim>\<open>data: [DONE]\<close>
  frame.
\<close>

datatype frame = Data json | DONE

text \<open>The body of the \<^verbatim>\<open>async for\<close> loop: the frames yielded for one event.\<close>

definition frames_of :: "event \<Rightarrow> frame list" where
  "frames_of ev =
     (if kind ev = ''on_chat_model_stream''
      then (if payload ev \<noteq> [] then [Data (JObj [(''token'', JStr (payload ev))])] else [])
      else if kind ev = ''on_tool_end''
      then [Data (JObj [(''tool_output'', JStr (payload ev))])]
      else if kind ev = ''on_end''
      then [DONE]
      else [])"

text \<open>
  The event stream delivers some events and then either ends or raises. The generator has no
  handler: it yields the frames of the events delivered and ends or raises as the stream did.
\<close>

fun event_generator :: "event list \<times> error option \<Rightarrow> frame list \<times> error option" where
  "event_generator ([], outcome) = ([], outcome)"
| "event_generator (ev # evs, outcome) =
     (case event_generator (evs, outcome) of (fs, r) \<Rightarrow> (frames_of ev @ fs, r))"

section \<open>The agent graph (\<^verbatim>\<open>backend/agent.py\<close>)\<close>

record tool_call =
  tc_name :: string
  tc_args :: "(string \<times> pyval) list"
  tc_id :: string

datatype message =
    HumanMessage string
  | AIMessage string "tool_call list"
  | ToolMessage string string

record AgentState =
  messages :: "message list"

text \<open>The names of the tools in the list \<^verbatim>\<open>tools\<close>.\<close>

definition tools :: "string list" where
  "tools =
     [''list_students'', ''get_student'', ''add_student'', ''update_student'',
      ''delete_student'', ''get_total_students'', ''get_students_by_department'',
      ''get_recent_onboarded_students'', ''get_active_students_last_7_days'',
      ''get_cafeteria_timings'', ''get_library_hours'', ''get_event_schedule'', ''send_email'']"

text \<open>
  The two collaborators. The model bound to the tools returns an assistant turn (its text and
  its tool calls) for a transcript, or raises. A tool executor, as \<^verbatim>\<open>call_tool\<close> uses it,
  is invoked on one tool call, acts on the world the tools act on, and returns \<^verbatim>\<open>str\<close> of
  its output, or raises. Beside the world, the number of model invocations is recorded.
\<close>

type_synonym chat_model = "message list \<Rightarrow> error + string \<times> tool_call list"
type_synonym 'w tool_node = "tool_call \<Rightarrow> 'w \<Rightarrow> (error + string) \<times> 'w"

record 'w outside =
  world :: 'w
  model_calls :: nat

text \<open>
  \<^verbatim>\<open>tool_executor = ToolNode(tools)\<close>. The node's \<^verbatim>\<open>invoke\<close> takes a list of messages, or
  a state with a \<^verbatim>\<open>messages\<close> entry, and runs the tool calls of its last assistant message;
  for an input without messages it raises \<^verbatim>\<open>ValueError\<close>. \<^verbatim>\<open>call_tool\<close> invokes it on one
  tool call, a dict with the entries \<^verbatim>\<open>name\<close>, \<^verbatim>\<open>args\<close> and \<^verbatim>\<open>id\<close>: on that input it
  raises, whatever the call, and no tool is run.
\<close>

definition tool_executor :: "'w tool_node" where
  "tool_executor action w = (Inl ValueError, w)"

text \<open>A node returns its update \<^verbatim>\<open>{"messages": [...]}\<close>.\<close>

definition call_model ::
  "chat_model \<Rightarrow> AgentState \<Rightarrow> 'w outside \<Rightarrow> error + message list \<times> 'w outside" where
  "call_model model_with_tools state out =
     (case model_with_tools (messages state) of
        Inl e \<Rightarrow> Inl e
      | Inr (text, tool_calls) \<Rightarrow>
          Inr ([AIMessage text tool_calls], out\<lparr>model_calls := Suc (model_calls out)\<rparr>))"

text \<open>\<^verbatim>\<open>call_tool\<close>, with the executor it invokes as its first argument.\<close>

definition call_tool ::
  "'w tool_node \<Rightarrow> AgentState \<Rightarrow> 'w outside \<Rightarrow> error + message list \<times> 'w outside" where
  "call_tool executor state out =
     (case messages state of
        [] \<Rightarrow> Inl IndexError
      | _ # _ \<Rightarrow>
          (case last (messages state) of
             AIMessage text tool_calls \<Rightarrow>
               (case tool_calls of
                  [] \<Rightarrow> Inl IndexError
                | action # _ \<Rightarrow>
                    (case executor action (world out) of
                       (Inl e, w') \<Rightarrow> Inl e
                     | (Inr tool_output, w') \<Rightarrow>
                         Inr ([ToolMessage tool_output (tc_id action)], out\<lparr>world := w'\<rparr>)))
           | _ \<Rightarrow> Inl AttributeError))"

definition should_continue :: "AgentState \<Rightarrow> error + string" where
  "should_continue state =
     (case messages state of
        [] \<Rightarrow> Inl IndexError
      | _ # _ \<Rightarrow>
          (case last (messages state) of
             AIMessage text tool_calls \<Rightarrow> Inr (if tool_calls \<noteq> [] then ''continue'' else ''end'')
           | _ \<Rightarrow> Inl AttributeError))"

text \<open>
  The graph: entry point \<^verbatim>\<open>agent\<close>; after \<^verbatim>\<open>agent\<close> the conditional edges on
  \<^verbatim>\<open>should_continue\<close>; after \<^verbatim>\<open>action\<close> the edge back to \<^verbatim>\<open>agent\<close>. The channel
  \<^verbatim>\<open>messages\<close> is reduced by \<^verbatim>\<open>lambda x, y: x + y\<close>.
\<close>

datatype node = agent_node | action_node | END

definition reducer :: "message list \<Rightarrow> message list \<Rightarrow> message list" where
  "reducer x y = x @ y"

definition conditional_edges :: "string \<Rightarrow> node option" where
  "conditional_edges r =
     (if r = ''continue'' then Some action_node else if r = ''end'' then Some END else None)"

fun step ::
  "chat_model \<Rightarrow> 'w tool_node \<Rightarrow> node \<Rightarrow> AgentState \<times> 'w outside
     \<Rightarrow> error + node \<times> AgentState \<times> 'w outside" where
  "step model_with_tools executor agent_node (state, out) =
     (case call_model model_with_tools state out of
        Inl e \<Rightarrow> Inl e
      | Inr (update, out') \<Rightarrow>
          let state' = state\<lparr>messages := reducer (messages state) update\<rparr>
          in (case should_continue state' of
                Inl e \<Rightarrow> Inl e
              | Inr r \<Rightarrow>
                  (case conditional_edges r of
                     None \<Rightarrow> Inl KeyError
                   | Some n \<Rightarrow> Inr (n, state', out'))))"
| "step model_with_tools executor action_node (state, out) =
     (case call_tool executor state out of
        Inl e \<Rightarrow> Inl e
      | Inr (update, out') \<Rightarrow>
          Inr (agent_node, state\<lparr>messages := reducer (messages state) update\<rparr>, out'))"
| "step model_with_tools executor END (state, out) = Inr (END, state, out)"

text \<open>
  Running the compiled graph. The graph runtime runs the nodes along the edges, one node to a
  step here, and counts the steps against the recursion limit of the call: a run that reaches
  \<^verbatim>\<open>END\<close> returns its state, a run in which a node raises fails with what was raised, and
  a run that has used the limit up with a node still to run fails with
  \<^verbatim>\<open>GraphRecursionError\<close>.
\<close>

fun run_graph ::
  "nat \<Rightarrow> chat_model \<Rightarrow> 'w tool_node \<Rightarrow> node \<Rightarrow> AgentState \<times> 'w outside
     \<Rightarrow> error + AgentState \<times> 'w outside" where
  "run_graph 0 model_with_tools executor n s =
     (if n = END then Inr s else Inl GraphRecursionError)"
| "run_graph (Suc limit) model_with_tools executor n s =
     (if n = END then Inr s
      else (case step model_with_tools executor n s of
              Inl e \<Rightarrow> Inl e
            | Inr (n', s') \<Rightarrow> run_graph limit model_with_tools executor n' s'))"

text \<open>
  \<^verbatim>\<open>agent_app.invoke({"messages": [("human", user_message)]}, config=config)\<close>, with the
  graph's own \<^verbatim>\<open>tool_executor\<close>. The recursion limit is the config's, 25 when the config
  names none, as the config in \<^verbatim>\<open>main.py\<close> does not; a limit below 1 is refused.
\<close>

definition default_recursion_limit :: nat where
  "default_recursion_limit = 25"

definition agent_app_invoke ::
  "nat option \<Rightarrow> chat_model \<Rightarrow> 'w \<Rightarrow> string \<Rightarrow> error + AgentState \<times> 'w outside" where
  "agent_app_invoke recursion_limit model_with_tools w user_message =
     (let limit = (case recursion_limit of None \<Rightarrow> default_recursion_limit | Some l \<Rightarrow> l)
      in if limit < 1 then Inl ValueError
         else run_graph limit model_with_tools tool_executor agent_node
                (\<lparr>messages = [HumanMessage user_message]\<rparr>, \<lparr>world = w, model_calls = 0\<rparr>))"

subsection \<open>Some models and tool calls, for concrete runs\<close>

definition library_call :: tool_call where
  "library_call = \<lparr>tc_name = ''get_library_hours'', tc_args = [], tc_id = ''call_1''\<rparr>"

definition cafeteria_call :: tool_call where
  "cafeteria_call = \<lparr>tc_name = ''get_cafeteria_timings'', tc_args = [], tc_id = ''call_2''\<rparr>"

definition enroll_call :: tool_call where
  "enroll_call =
     \<lparr>tc_name = ''enroll_student'', tc_args = [(''id'', Some ''23-1001'')], tc_id = ''call_3''\<rparr>"

text \<open>A model that answers at once.\<close>

definition direct_model :: chat_model where
  "direct_model ms = Inr (''The library is open from 9:00 AM.'', [])"

text \<open>A model that asks for the library hours once, and answers when it has a tool result.\<close>

definition library_model :: chat_model where
  "library_model ms =
     (if list_ex (\<lambda>m. case m of ToolMessage text call_id \<Rightarrow> True | _ \<Rightarrow> False) ms
      then Inr (''The library is open from 9:00 AM.'', [])
      else Inr ([], [library_call]))"

text \<open>A model that asks for a tool that is not in the list, until it has a tool result.\<close>

definition enroll_model :: chat_model where
  "enroll_model ms =
     (if list_ex (\<lambda>m. case m of ToolMessage text call_id \<Rightarrow> True | _ \<Rightarrow> False) ms
      then Inr (''There is no such tool.'', [])
      else Inr ([], [enroll_call]))"


section \<open>Properties of the student tools\<close>

subsection \<open>The store operations\<close>

lemma find_snoc:
  "find P (xs @ [x]) =
     (case find P xs of None \<Rightarrow> (if P x then Some x else None) | Some y \<Rightarrow> Some y)"
  by (induction xs) auto

lemma delete_one_absent: "find (matches k q) c = None \<Longrightarrow> delete_one c k q = (0, c)"
  by (induction c) (auto split: if_splits)

lemma map_of_set_item: "map_of (set_item k v d) = (map_of d)(k \<mapsto> v)"
  by (induction d) (auto simp: fun_eq_iff)

lemma keys_set_item:
  "map fst (set_item k v d) = (if k \<in> fst ` set d then map fst d else map fst d @ [k])"
  by (induction d) force+

lemma set_item_fresh: "k \<notin> fst ` set acc \<Longrightarrow> set_item k v acc = acc @ [(k, v)]"
  by (induction acc) auto

subsection \<open>Grouping and the dict built from its results\<close>

lemma dict_of_items_gen:
  "distinct (map fst (acc @ items)) \<Longrightarrow>
   foldl (\<lambda>acc (k, v). set_item k v acc) acc items = acc @ items"
proof (induction items arbitrary: acc)
  case Nil
  then show ?case by simp
next
  case (Cons p items)
  obtain k v where p: "p = (k, v)" by (cases p)
  from Cons.prems p have fresh: "k \<notin> fst ` set acc" by auto
  from Cons.prems p have "distinct (map fst ((acc @ [(k, v)]) @ items))" by simp
  from Cons.IH [OF this] show ?case using p fresh by (simp add: set_item_fresh)
qed

lemma dict_of_items_distinct: "distinct (map fst items) \<Longrightarrow> dict_of_items items = items"
  using dict_of_items_gen [of "[]" items] by (simp add: dict_of_items_def)

lemma bump_sum: "sum_list (map snd (bump k acc)) = Suc (sum_list (map snd acc))"
  by (induction acc) auto

lemma bump_keys: "fst ` set (bump k acc) = insert k (fst ` set acc)"
  by (induction acc) force+

lemma bump_distinct: "distinct (map fst acc) \<Longrightarrow> distinct (map fst (bump k acc))"
proof (induction acc)
  case Nil
  then show ?case by simp
next
  case (Cons p acc)
  obtain k' n where p: "p = (k', n)" by (cases p)
  show ?case
  proof (cases "k = k'")
    case True
    with Cons.prems p show ?thesis by simp
  next
    case False
    from Cons.prems p have d: "distinct (map fst acc)" and nin: "k' \<notin> fst ` set acc" by auto
    from nin False have "k' \<notin> fst ` set (bump k acc)" by (simp add: bump_keys)
    with Cons.IH [OF d] p False show ?thesis by simp
  qed
qed

lemma group_gen:
  "distinct (map fst acc) \<Longrightarrow>
   distinct (map fst (foldl (\<lambda>acc d. bump (f d) acc) acc c)) \<and>
   sum_list (map snd (foldl (\<lambda>acc d. bump (f d) acc) acc c)) = sum_list (map snd acc) + length c"
proof (induction c arbitrary: acc)
  case Nil
  then show ?case by simp
next
  case (Cons d c)
  from Cons.prems have "distinct (map fst (bump (f d) acc))" by (rule bump_distinct)
  from Cons.IH [OF this] show ?case by (simp add: bump_sum)
qed

lemma aggregate_group_count_distinct: "distinct (map fst (aggregate_group_count c k))"
  using group_gen [of "[]" "field_value k" c] by (simp add: aggregate_group_count_def)

lemma aggregate_group_count_sum: "sum_list (map snd (aggregate_group_count c k)) = length c"
  using group_gen [of "[]" "field_value k" c] by (simp add: aggregate_group_count_def)

lemma counts_of_encoded:
  "counts_of (Dumps (JObj (map (\<lambda>(k, n). (json_key k, JInt (int n))) xs))) =
   map (\<lambda>p. int (snd p)) xs"
  by (induction xs) auto

lemma sum_list_int_snd:
  "sum_list (map (\<lambda>p. int (snd p)) xs) = int (sum_list (map snd xs))"
  by (induction xs) auto

subsection \<open>Adding, then reading\<close>

text \<open>
  C6. On a connected store that holds no student with the given id, \<^verbatim>\<open>add_student\<close>
  returns its success string, and \<^verbatim>\<open>get_student\<close> on the store it leaves returns the
  encoding of a record with exactly the id, name, department and email that were added.
\<close>

theorem add_student_then_get_student:
  assumes "find_one c ''id'' sid = None"
  shows "fst (add_student (Some c) sid name department email) =
           Text (''Success: Student '' @ fmt name @ '' with ID '' @ fmt sid
                 @ '' has been added.'') \<and>
         get_student (snd (add_student (Some c) sid name department email)) sid =
           Dumps (JObj [(''id'', json_of_pyval sid), (''name'', json_of_pyval name),
                        (''department'', json_of_pyval department),
                        (''email'', json_of_pyval email)])"
proof -
  let ?d = "[(''id'', sid), (''name'', name), (''department'', department), (''email'', email)]"
  have m: "matches ''id'' sid ?d" by (simp add: matches_def)
  from assms have add: "add_student (Some c) sid name department email =
      (Text (''Success: Student '' @ fmt name @ '' with ID '' @ fmt sid @ '' has been added.''),
       Some (c @ [?d]))"
    by (simp add: add_student_def insert_one_def)
  from assms m have "find_one (c @ [?d]) ''id'' sid = Some ?d"
    by (simp add: find_one_def find_snoc)
  then have "get_student (Some (c @ [?d])) sid = Dumps (json_of_document ?d)"
    by (simp add: get_student_def)
  with add show ?thesis by (simp add: json_of_document_def)
qed

theorem add_student_then_get_student_witness:
  "find_one mock_students ''id'' (Some ''23-9999'') = None \<and>
   get_student (snd (add_student (Some mock_students) (Some ''23-9999'') (Some ''Omar'')
       (Some ''Data Science'') (Some ''omar@x.edu''))) (Some ''23-9999'') =
     Dumps (JObj [(''id'', JStr ''23-9999''), (''name'', JStr ''Omar''),
                  (''department'', JStr ''Data Science''), (''email'', JStr ''omar@x.edu'')])"
proof -
  have h: "find_one mock_students ''id'' (Some ''23-9999'') = None"
    by (simp add: find_one_def mock_students_def matches_def)
  show ?thesis
    using h add_student_then_get_student [OF h, of "Some ''Omar''" "Some ''Data Science''"
        "Some ''omar@x.edu''"]
    by (simp add: json_of_pyval_def)
qed

subsection \<open>Failed mutations change nothing\<close>

text \<open>
  C7. On a connected store, \<^verbatim>\<open>add_student\<close> with an id that a stored student already has
  returns the duplicate-id error string and leaves the whole collection, so also the existing
  record, as it was; \<^verbatim>\<open>delete_student\<close> with an id that no stored student has returns the
  not-found error string and leaves the collection, so also its document count, as it was.
\<close>

theorem failed_mutations_atomic:
  "(find_one c ''id'' sid \<noteq> None \<longrightarrow>
      add_student (Some c) sid name department email =
        (Text (''Error: Student with ID '' @ fmt sid @ '' already exists.''), Some c)) \<and>
   (find_one c ''id'' sid = None \<longrightarrow>
      delete_student (Some c) sid =
        (Text (''Error: No student found with ID '' @ fmt sid @ ''.''), Some c) \<and>
      count_documents (the (snd (delete_student (Some c) sid))) = count_documents c)"
  by (auto simp: add_student_def delete_student_def find_one_def delete_one_absent)

theorem failed_mutations_atomic_witness:
  "find_one mock_students ''id'' (Some ''23-1002'') \<noteq> None \<and>
   add_student (Some mock_students) (Some ''23-1002'') (Some ''X'') (Some ''Y'') (Some ''Z'') =
     (Text ''Error: Student with ID 23-1002 already exists.'', Some mock_students) \<and>
   find_one mock_students ''id'' (Some ''00-0000'') = None \<and>
   delete_student (Some mock_students) (Some ''00-0000'') =
     (Text ''Error: No student found with ID 00-0000.'', Some mock_students) \<and>
   count_documents (the (snd (delete_student (Some mock_students) (Some ''00-0000'')))) = 5"
proof -
  have h1: "find_one mock_students ''id'' (Some ''23-1002'') \<noteq> None"
    by (simp add: find_one_def mock_students_def matches_def)
  have h2: "find_one mock_students ''id'' (Some ''00-0000'') = None"
    by (simp add: find_one_def mock_students_def matches_def)
  have n: "count_documents mock_students = 5"
    by (simp add: count_documents_def mock_students_def)
  show ?thesis
    using h1 h2 n
      failed_mutations_atomic [of mock_students "Some ''23-1002''" "Some ''X''" "Some ''Y''"
        "Some ''Z''"]
      failed_mutations_atomic [of mock_students "Some ''00-0000''" "Some ''X''" "Some ''Y''"
        "Some ''Z''"]
    by (simp add: fmt_def)
qed

subsection \<open>Counts by department and the total\<close>

text \<open>
  C8. On every connected store, the number that \<^verbatim>\<open>get_total_students\<close> prints is the sum
  of the per-department counts in the object that \<^verbatim>\<open>get_students_by_department\<close> encodes,
  and that sum is the number of documents.
\<close>

theorem department_counts_sum_to_total:
  "get_total_students (Some c) =
     Text (str_nat (nat (sum_list (counts_of (get_students_by_department (Some c)))))) \<and>
   sum_list (counts_of (get_students_by_department (Some c))) = int (count_documents c)"
proof -
  have "get_students_by_department (Some c) =
        Dumps (JObj (map (\<lambda>(k, n). (json_key k, JInt (int n)))
                      (aggregate_group_count c ''department'')))"
    by (simp add: get_students_by_department_def Let_def
        dict_of_items_distinct [OF aggregate_group_count_distinct])
  then have "counts_of (get_students_by_department (Some c)) =
        map (\<lambda>p. int (snd p)) (aggregate_group_count c ''department'')"
    by (simp only: counts_of_encoded)
  then have "sum_list (counts_of (get_students_by_department (Some c))) = int (length c)"
    by (simp only: sum_list_int_snd aggregate_group_count_sum)
  then show ?thesis
    by (simp add: get_total_students_def count_documents_def)
qed

subsection \<open>Updating a field\<close>

lemma split_dots_no_dot: "CHR ''.'' \<notin> set s \<Longrightarrow> split_dots s = [s]"
  by (induction s) auto

lemma set_item_bson_of_document:
  "set_item k (bson_of_pyval v) (bson_of_document d) = bson_of_document (set_item k v d)"
  by (induction d) (auto simp: bson_of_document_def)

lemma update_one_plain_key:
  assumes "plain_key field"
  shows "update_one c k q field v =
           update_first c k q (\<lambda>d. Inr (bson_of_document (set_item field v d)))"
proof -
  from assms have p: "split_dots field = [field]"
    by (simp add: plain_key_def split_dots_no_dot)
  from assms have "apply_set [field] v = (\<lambda>d. Inr (bson_of_document (set_item field v d)))"
    by (auto simp: apply_set_def plain_key_def set_item_bson_of_document fun_eq_iff)
  with assms p show ?thesis
    by (simp add: update_one_def plain_key_def)
qed

lemma update_first_present:
  "find (matches k q) c = Some d \<Longrightarrow>
   \<exists>pre post. c = pre @ d # post \<and> find (matches k q) pre = None \<and>
      update_first c k q (\<lambda>d. Inr (bson_of_document (f d))) =
        Inr (1, map bson_of_document (pre @ f d # post))"
proof (induction c)
  case Nil
  then show ?case by simp
next
  case (Cons a c)
  show ?case
  proof (cases "matches k q a")
    case True
    with Cons.prems have "a = d" by simp
    with True have "a # c = [] @ d # c \<and> find (matches k q) [] = None \<and>
      update_first (a # c) k q (\<lambda>d. Inr (bson_of_document (f d))) =
        Inr (1, map bson_of_document ([] @ f d # c))" by simp
    then show ?thesis by blast
  next
    case False
    with Cons.prems have "find (matches k q) c = Some d" by simp
    from Cons.IH [OF this] obtain pre post where
      h: "c = pre @ d # post" "find (matches k q) pre = None"
         "update_first c k q (\<lambda>d. Inr (bson_of_document (f d))) =
            Inr (1, map bson_of_document (pre @ f d # post))" by blast
    with False have "a # c = (a # pre) @ d # post \<and> find (matches k q) (a # pre) = None \<and>
      update_first (a # c) k q (\<lambda>d. Inr (bson_of_document (f d))) =
        Inr (1, map bson_of_document ((a # pre) @ f d # post))" by simp
    then show ?thesis by blast
  qed
qed

text \<open>
  C10 as stated does not hold: for the id of the first seeded student and the field name
  \<^verbatim>\<open>_id\<close>, the store refuses the update and \<^verbatim>\<open>update_student\<close> raises; it returns no
  success string.
\<close>

theorem update_student_id_field_raises:
  "find_one mock_students ''id'' (Some ''23-1001'') = Some (hd mock_students) \<and>
   update_student (Some mock_students) (Some ''23-1001'') ''_id'' (Some ''x'') = Inl WriteError"
  by (simp add: find_one_def mock_students_def matches_def update_student_def update_one_def
      apply_set_def)

text \<open>A dotted field name is not one key either: it writes an object.\<close>

lemma update_student_dotted_field:
  "update_student (Some [[(''id'', Some ''1'')]]) (Some ''1'') ''address.city'' (Some ''Karachi'') =
     Inr (Text ''Success: Student with ID 1 updated successfully.'',
          Some [[(''id'', BStr ''1''), (''address'', BDoc [(''city'', BStr ''Karachi'')])]])"
  by (simp add: update_student_def update_one_def apply_set_def matches_def fmt_def
      bson_of_document_def bson_of_pyval_def)

text \<open>
  C10, amended. On a connected store, for an id that a stored student has and for any field
  name that is a plain key, \<^verbatim>\<open>update_student\<close> returns the success string; the first
  document with that id is replaced, in place, by the document with the field set to the new
  value, and nothing else changes. A plain key that the document does not have is not
  rejected: it becomes a new last key of the stored record.
\<close>

theorem update_student_plain_field:
  assumes "find_one c ''id'' sid = Some d" and "plain_key field"
  shows "\<exists>pre post. c = pre @ d # post \<and> find_one pre ''id'' sid = None \<and>
           update_student (Some c) sid field new_value =
             Inr (Text (''Success: Student with ID '' @ fmt sid @ '' updated successfully.''),
                  Some (map bson_of_document (pre @ set_item field new_value d # post))) \<and>
           map_of (set_item field new_value d) = (map_of d)(field \<mapsto> new_value) \<and>
           map fst (set_item field new_value d) =
             (if field \<in> fst ` set d then map fst d else map fst d @ [field])"
proof -
  from assms(1) have "find (matches ''id'' sid) c = Some d" by (simp add: find_one_def)
  from update_first_present [OF this, of "set_item field new_value"] obtain pre post where
    h: "c = pre @ d # post" "find (matches ''id'' sid) pre = None"
       "update_first c ''id'' sid (\<lambda>d. Inr (bson_of_document (set_item field new_value d))) =
          Inr (1, map bson_of_document (pre @ set_item field new_value d # post))"
    by blast
  from h(3) have "update_student (Some c) sid field new_value =
      Inr (Text (''Success: Student with ID '' @ fmt sid @ '' updated successfully.''),
           Some (map bson_of_document (pre @ set_item field new_value d # post)))"
    by (simp add: update_student_def update_one_plain_key [OF assms(2)])
  with h(1,2) show ?thesis
    by (auto simp: find_one_def map_of_set_item keys_set_item)
qed

theorem update_student_plain_field_witness:
  "find_one mock_students ''id'' (Some ''23-1001'') = Some (hd mock_students) \<and>
   plain_key ''nickname'' \<and>
   update_student (Some mock_students) (Some ''23-1001'') ''nickname'' (Some ''Ash'') =
     Inr (Text ''Success: Student with ID 23-1001 updated successfully.'',
          Some (map bson_of_document
            (set_item ''nickname'' (Some ''Ash'') (hd mock_students) # tl mock_students))) \<and>
   map fst (set_item ''nickname'' (Some ''Ash'') (hd mock_students)) =
     [''id'', ''name'', ''department'', ''email'', ''nickname'']"
proof -
  have h: "find_one mock_students ''id'' (Some ''23-1001'') = Some (hd mock_students)"
    by (simp add: find_one_def mock_students_def matches_def)
  have k: "plain_key ''nickname''" by (simp add: plain_key_def)
  from update_student_plain_field [OF h k, of "Some ''Ash''"]
  obtain pre post where
    p: "mock_students = pre @ hd mock_students # post"
       "find_one pre ''id'' (Some ''23-1001'') = None"
       "update_student (Some mock_students) (Some ''23-1001'') ''nickname'' (Some ''Ash'') =
          Inr (Text (''Success: Student with ID '' @ fmt (Some ''23-1001'')
                     @ '' updated successfully.''),
               Some (map bson_of_document
                 (pre @ set_item ''nickname'' (Some ''Ash'') (hd mock_students) # post)))"
    by blast
  have "pre = []"
  proof (cases pre)
    case Nil
    then show ?thesis .
  next
    case (Cons a r)
    with p(1) have "a = hd mock_students" by (simp add: mock_students_def)
    with p(2) Cons show ?thesis
      by (simp add: find_one_def mock_students_def matches_def)
  qed
  with p(1) have "post = tl mock_students" by (simp add: mock_students_def)
  with p(3) \<open>pre = []\<close> h k show ?thesis
    by (simp add: fmt_def mock_students_def)
qed

section \<open>Properties of the create endpoint\<close>

lemma add_student_reply:
  "startswith_Error (fst (add_student sc sid name department email)) \<or>
   (\<exists>s. fst (add_student sc sid name department email) = Text (CHR ''S'' # s))"
  by (auto simp: add_student_def db_failed_def Let_def split: option.splits)

lemma json_loads_Success: "json_loads decode (Text (CHR ''S'' # s)) = Inl JSONDecodeError"
  by (simp add: json_loads_def json_whitespace_def json_value_start_def)

lemma add_new_student_never_201: "status_code (fst (add_new_student decode sc data)) \<noteq> 201"
proof -
  obtain r sc' where add: "add_student sc (dict_get data ''name'') (dict_get data ''department'')
      (dict_get data ''year'') (dict_get data ''email'') = (r, sc')"
    by (cases "add_student sc (dict_get data ''name'') (dict_get data ''department'')
      (dict_get data ''year'') (dict_get data ''email'')")
  show ?thesis
  proof (cases "startswith_Error r")
    case True
    with add show ?thesis by (simp add: add_new_student_def)
  next
    case False
    with add add_student_reply [of sc "dict_get data ''name''" "dict_get data ''department''"
        "dict_get data ''year''" "dict_get data ''email''"]
    obtain s where "r = Text (CHR ''S'' # s)" by auto
    with add False show ?thesis
      by (simp add: add_new_student_def json_loads_Success)
  qed
qed

text \<open>
  C9. A well-formed create request for a name that no stored student has as id: the student
  is inserted (with the request's name as id, its department as name and its year as
  department), the success sentence of \<^verbatim>\<open>add_student\<close> is handed to \<^verbatim>\<open>json.loads\<close>,
  which raises, and the endpoint answers 500, not 201.
\<close>

theorem add_new_student_returns_500:
  "\<forall>decode. add_new_student decode (Some mock_students)
      [(''name'', Some ''Omar''), (''department'', Some ''Data Science''),
       (''year'', Some ''2025''), (''email'', Some ''omar@x.edu'')] =
     (\<lparr>status_code = 500, content = Exception_content JSONDecodeError\<rparr>,
      Some (mock_students @
        [[(''id'', Some ''Omar''), (''name'', Some ''Data Science''),
          (''department'', Some ''2025''), (''email'', Some ''omar@x.edu'')]]))"
proof
  fix decode
  have "find_one mock_students ''id'' (Some ''Omar'') = None"
    by (simp add: find_one_def mock_students_def matches_def)
  then have "add_student (Some mock_students) (Some ''Omar'') (Some ''Data Science'')
      (Some ''2025'') (Some ''omar@x.edu'') =
     (Text ''Success: Student Data Science with ID Omar has been added.'',
      Some (mock_students @
        [[(''id'', Some ''Omar''), (''name'', Some ''Data Science''),
          (''department'', Some ''2025''), (''email'', Some ''omar@x.edu'')]]))"
    by (simp add: add_student_def insert_one_def fmt_def)
  then show "add_new_student decode (Some mock_students)
      [(''name'', Some ''Omar''), (''department'', Some ''Data Science''),
       (''year'', Some ''2025''), (''email'', Some ''omar@x.edu'')] =
     (\<lparr>status_code = 500, content = Exception_content JSONDecodeError\<rparr>,
      Some (mock_students @
        [[(''id'', Some ''Omar''), (''name'', Some ''Data Science''),
          (''department'', Some ''2025''), (''email'', Some ''omar@x.edu'')]]))"
    by (simp add: add_new_student_def dict_get_def json_loads_Success)
qed

section \<open>Properties of the streaming endpoint\<close>

lemma kind_not_on_end: "kind ev \<noteq> ''on_end''"
proof
  assume "kind ev = ''on_end''"
  then have eq: "run_type ev @ ''_'' @ phase_name (phase ev) = ''end''"
    by (simp add: kind_def)
  have "CHR ''_'' \<in> set (run_type ev @ ''_'' @ phase_name (phase ev))"
    by simp
  then have "CHR ''_'' \<in> set ''end''"
    by (simp only: eq)
  then show False by simp
qed

lemma frames_of_no_DONE: "DONE \<notin> set (frames_of ev)"
  by (simp add: frames_of_def kind_not_on_end)

lemma event_generator_frames:
  "event_generator (evs, outcome) = (concat (map frames_of evs), outcome)"
  by (induction evs) auto

text \<open>A run that ends well: the model streams two chunks and the graph's run ends.\<close>

lemma successful_run_frames:
  "event_generator
     ([\<lparr>run_type = ''chain'', phase = Start, payload = []\<rparr>,
       \<lparr>run_type = ''chat_model'', phase = Stream, payload = ''The lib''\<rparr>,
       \<lparr>run_type = ''chat_model'', phase = Stream, payload = ''rary is open.''\<rparr>,
       \<lparr>run_type = ''chain'', phase = End, payload = []\<rparr>], None) =
   ([Data (JObj [(''token'', JStr ''The lib'')]),
     Data (JObj [(''token'', JStr ''rary is open.'')])], None)"
  by (simp add: frames_of_def kind_def)

text \<open>
  C4. No run yields a terminal marker. The generator yields \<^verbatim>\<open>[DONE]\<close> only for an event
  named \<^verbatim>\<open>on_end\<close>, and no event of the stream has that name; so for every run, one that
  ends well or one that fails, the frames yielded hold none.
\<close>

theorem event_generator_never_DONE:
  "count_list (fst (event_generator (evs, outcome))) DONE = 0 \<and>
   snd (event_generator (evs, outcome)) = outcome"
proof -
  have "DONE \<notin> set (concat (map frames_of evs))"
    by (simp add: frames_of_no_DONE)
  then show ?thesis
    by (simp add: event_generator_frames count_list_0_iff)
qed

section \<open>Properties of the agent graph\<close>

lemma case_snoc: "(case xs @ [x] of [] \<Rightarrow> a | _ # _ \<Rightarrow> b) = b"
  by (cases xs) auto

lemma step_action:
  assumes "messages state \<noteq> []" "last (messages state) = AIMessage answer (tc # rest)"
    "executor tc (world out) = (Inr res, w')"
  shows "step model executor action_node (state, out) =
     Inr (agent_node, state\<lparr>messages := messages state @ [ToolMessage res (tc_id tc)]\<rparr>,
          out\<lparr>world := w'\<rparr>)"
  using assms by (cases "messages state") (simp_all add: call_tool_def reducer_def)

lemma step_action_raises:
  assumes "messages state \<noteq> []" "last (messages state) = AIMessage answer (tc # rest)"
    "executor tc (world out) = (Inl e, w')"
  shows "step model executor action_node (state, out) = Inl e"
  using assms by (cases "messages state") (simp_all add: call_tool_def reducer_def)

lemma step_agent_end:
  assumes "model (messages state) = Inr (answer, [])"
  shows "step model executor agent_node (state, out) =
     Inr (END, state\<lparr>messages := messages state @ [AIMessage answer []]\<rparr>,
          out\<lparr>model_calls := Suc (model_calls out)\<rparr>)"
  using assms
  by (simp add: call_model_def reducer_def should_continue_def conditional_edges_def Let_def
      case_snoc)

lemma step_agent_continue:
  assumes "model (messages state) = Inr (answer, tc # rest)"
  shows "step model executor agent_node (state, out) =
     Inr (action_node, state\<lparr>messages := messages state @ [AIMessage answer (tc # rest)]\<rparr>,
          out\<lparr>model_calls := Suc (model_calls out)\<rparr>)"
  using assms
  by (simp add: call_model_def reducer_def should_continue_def conditional_edges_def Let_def
      case_snoc)

lemma run_graph_END: "run_graph limit model executor END s = Inr s"
  by (cases limit) simp_all

lemma run_graph_step:
  "n \<noteq> END \<Longrightarrow> step model executor n s = Inr (n', s') \<Longrightarrow>
   run_graph (Suc limit) model executor n s = run_graph limit model executor n' s'"
  by (simp del: step.simps)

lemma run_graph_raise:
  "n \<noteq> END \<Longrightarrow> step model executor n s = Inl e \<Longrightarrow>
   run_graph (Suc limit) model executor n s = Inl e"
  by (simp del: step.simps)

lemma agent_app_invoke_None:
  "agent_app_invoke None model w user_message =
     run_graph (Suc (Suc 23)) model tool_executor agent_node
       (\<lparr>messages = [HumanMessage user_message]\<rparr>, \<lparr>world = w, model_calls = 0\<rparr>)"
  by (simp add: agent_app_invoke_def default_recursion_limit_def)

subsection \<open>The tool executor raises on every call\<close>

lemma call_tool_never_returns: "\<exists>e. call_tool tool_executor state out = Inl e"
  by (auto simp: call_tool_def tool_executor_def split: list.splits message.splits)

lemma step_action_tool_executor:
  assumes "messages state \<noteq> []" "last (messages state) = AIMessage answer (tc # rest)"
  shows "step model tool_executor action_node (state, out) = Inl ValueError"
  using assms by (cases "messages state") (simp_all add: call_tool_def tool_executor_def)

lemma invoke_tool_request_raises:
  assumes "model [HumanMessage user_message] = Inr (request, tc # rest)"
  shows "agent_app_invoke None model w user_message = Inl ValueError"
proof -
  let ?state = "\<lparr>messages = [HumanMessage user_message]\<rparr>"
  let ?out = "\<lparr>world = w, model_calls = 0\<rparr>"
  let ?s1 = "(?state\<lparr>messages := messages ?state @ [AIMessage request (tc # rest)]\<rparr>,
              ?out\<lparr>model_calls := Suc (model_calls ?out)\<rparr>)"
  from assms have "model (messages ?state) = Inr (request, tc # rest)" by simp
  then have a: "step model tool_executor agent_node (?state, ?out) = Inr (action_node, ?s1)"
    by (rule step_agent_continue)
  have b: "step model tool_executor action_node ?s1 = Inl ValueError"
    by (rule step_action_tool_executor) simp_all
  have "run_graph (Suc (Suc 23)) model tool_executor agent_node (?state, ?out) =
        run_graph (Suc 23) model tool_executor action_node ?s1"
    using a by (intro run_graph_step) simp_all
  also have "\<dots> = Inl ValueError"
    using b by (intro run_graph_raise) simp_all
  finally show ?thesis by (simp only: agent_app_invoke_None)
qed

text \<open>
  C1. A cycle of the \<^verbatim>\<open>action\<close> node on an assistant turn with two tool calls: the
  executor raises on the first call, \<^verbatim>\<open>call_tool\<close> raises with it, and the step fails. No
  tool is run and no tool message is appended.
\<close>

theorem call_tool_raises_on_first_request:
  "call_tool tool_executor
     \<lparr>messages = [HumanMessage ''hours?'', AIMessage [] [library_call, cafeteria_call]]\<rparr>
     \<lparr>world = (), model_calls = 1\<rparr> = Inl ValueError \<and>
   step direct_model tool_executor action_node
     (\<lparr>messages = [HumanMessage ''hours?'', AIMessage [] [library_call, cafeteria_call]]\<rparr>,
      \<lparr>world = (), model_calls = 1\<rparr>) = Inl ValueError"
  by (simp add: call_tool_def tool_executor_def)

subsection \<open>A turn without tool calls ends the run\<close>

text \<open>
  From the \<^verbatim>\<open>agent\<close> node, in any state, an assistant turn with no tool call leads to
  \<^verbatim>\<open>END\<close>, not to \<^verbatim>\<open>action\<close>, and the run returns with that turn as its last message; a
  run in which the model answers at once returns after exactly one model invocation.
\<close>

lemma no_tool_request_ends_run:
  "(model (messages state) = Inr (answer, []) \<longrightarrow>
      step model executor agent_node (state, out) =
        Inr (END, state\<lparr>messages := messages state @ [AIMessage answer []]\<rparr>,
             out\<lparr>model_calls := Suc (model_calls out)\<rparr>) \<and>
      run_graph (Suc limit) model executor agent_node (state, out) =
        Inr (state\<lparr>messages := messages state @ [AIMessage answer []]\<rparr>,
             out\<lparr>model_calls := Suc (model_calls out)\<rparr>)) \<and>
   (model [HumanMessage user_message] = Inr (answer, []) \<longrightarrow>
      agent_app_invoke None model w user_message =
        Inr (\<lparr>messages = [HumanMessage user_message, AIMessage answer []]\<rparr>,
             \<lparr>world = w, model_calls = 1\<rparr>))"
proof (intro conjI impI)
  assume "model (messages state) = Inr (answer, [])"
  then show "step model executor agent_node (state, out) =
        Inr (END, state\<lparr>messages := messages state @ [AIMessage answer []]\<rparr>,
             out\<lparr>model_calls := Suc (model_calls out)\<rparr>)"
    by (rule step_agent_end)
next
  assume "model (messages state) = Inr (answer, [])"
  then have "step model executor agent_node (state, out) =
        Inr (END, state\<lparr>messages := messages state @ [AIMessage answer []]\<rparr>,
             out\<lparr>model_calls := Suc (model_calls out)\<rparr>)"
    by (rule step_agent_end)
  then show "run_graph (Suc limit) model executor agent_node (state, out) =
        Inr (state\<lparr>messages := messages state @ [AIMessage answer []]\<rparr>,
             out\<lparr>model_calls := Suc (model_calls out)\<rparr>)"
    by (simp add: run_graph_step run_graph_END del: step.simps run_graph.simps)
next
  let ?state = "\<lparr>messages = [HumanMessage user_message]\<rparr>"
  let ?out = "\<lparr>world = w, model_calls = 0\<rparr>"
  assume "model [HumanMessage user_message] = Inr (answer, [])"
  then have "model (messages ?state) = Inr (answer, [])" by simp
  then have "step model tool_executor agent_node (?state, ?out) =
        Inr (END, ?state\<lparr>messages := messages ?state @ [AIMessage answer []]\<rparr>,
             ?out\<lparr>model_calls := Suc (model_calls ?out)\<rparr>)"
    by (rule step_agent_end)
  then have "run_graph (Suc (Suc 23)) model tool_executor agent_node (?state, ?out) =
        run_graph (Suc 23) model tool_executor END
          (?state\<lparr>messages := messages ?state @ [AIMessage answer []]\<rparr>,
           ?out\<lparr>model_calls := Suc (model_calls ?out)\<rparr>)"
    by (intro run_graph_step) simp_all
  then have "agent_app_invoke None model w user_message =
        Inr (?state\<lparr>messages := messages ?state @ [AIMessage answer []]\<rparr>,
             ?out\<lparr>model_calls := Suc (model_calls ?out)\<rparr>)"
    by (simp only: agent_app_invoke_None run_graph_END)
  then show "agent_app_invoke None model w user_message =
        Inr (\<lparr>messages = [HumanMessage user_message, AIMessage answer []]\<rparr>,
             \<lparr>world = w, model_calls = 1\<rparr>)"
    by simp
qed

text \<open>
  C2. A run in which the model first asks for the library hours and would answer on the tool
  result: the first step is the one model invocation, the second is the \<^verbatim>\<open>action\<close> node,
  which raises, and the run fails there. The model is not invoked a second time.
\<close>

theorem tool_first_run_raises_after_one_model_call:
  "step library_model tool_executor agent_node
     (\<lparr>messages = [HumanMessage ''What are the library hours?'']\<rparr>,
      \<lparr>world = (), model_calls = 0\<rparr>) =
     Inr (action_node,
          \<lparr>messages = [HumanMessage ''What are the library hours?'',
                       AIMessage [] [library_call]]\<rparr>,
          \<lparr>world = (), model_calls = 1\<rparr>) \<and>
   step library_model tool_executor action_node
     (\<lparr>messages = [HumanMessage ''What are the library hours?'',
                   AIMessage [] [library_call]]\<rparr>,
      \<lparr>world = (), model_calls = 1\<rparr>) = Inl ValueError \<and>
   agent_app_invoke None library_model () ''What are the library hours?'' = Inl ValueError"
proof -
  have m: "library_model [HumanMessage ''What are the library hours?''] =
      Inr ([], library_call # [])"
    by (simp add: library_model_def)
  have "agent_app_invoke None library_model () ''What are the library hours?'' = Inl ValueError"
    using m by (rule invoke_tool_request_raises)
  then show ?thesis
    by (simp add: library_model_def call_model_def should_continue_def conditional_edges_def
        reducer_def call_tool_def tool_executor_def)
qed

subsection \<open>A tool that is not in the list\<close>

text \<open>
  C5. A run in which the model asks for \<^verbatim>\<open>enroll_student\<close>, which is not in the list of
  tools: the \<^verbatim>\<open>action\<close> node raises as it does for every call, no tool message is
  appended, and the run fails with the exception.
\<close>

theorem unknown_tool_run_raises:
  "tc_name enroll_call \<notin> set tools \<and>
   step enroll_model tool_executor action_node
     (\<lparr>messages = [HumanMessage ''Enroll 23-1001'', AIMessage [] [enroll_call]]\<rparr>,
      \<lparr>world = (), model_calls = 1\<rparr>) = Inl ValueError \<and>
   agent_app_invoke None enroll_model () ''Enroll 23-1001'' = Inl ValueError"
proof -
  have m: "enroll_model [HumanMessage ''Enroll 23-1001''] = Inr ([], enroll_call # [])"
    by (simp add: enroll_model_def)
  have "agent_app_invoke None enroll_model () ''Enroll 23-1001'' = Inl ValueError"
    using m by (rule invoke_tool_request_raises)
  then show ?thesis
    by (simp add: enroll_call_def tools_def call_tool_def tool_executor_def)
qed

subsection \<open>The recursion limit\<close>

lemma greedy_run_fails:
  assumes g: "\<forall>ms. \<exists>answer tc rest. model ms = Inr (answer, tc # rest)"
    and inv: "n = agent_node \<or>
       (n = action_node \<and> messages (fst s) \<noteq> [] \<and>
        (\<exists>answer tc rest. last (messages (fst s)) = AIMessage answer (tc # rest)))"
  shows "\<exists>e. run_graph limit model executor n s = Inl e \<and>
           (e = GraphRecursionError \<or> (\<exists>tc w w'. executor tc w = (Inl e, w')))"
  using inv
proof (induction limit arbitrary: n s)
  case 0
  then have "n \<noteq> END" by auto
  then show ?case by simp
next
  case (Suc limit)
  obtain state out where s: "s = (state, out)" by (cases s)
  from Suc.prems have ne: "n \<noteq> END" by auto
  from Suc.prems consider (ag) "n = agent_node"
    | (ac) "n = action_node" "messages state \<noteq> []"
        "\<exists>answer tc rest. last (messages state) = AIMessage answer (tc # rest)"
    unfolding s by auto
  then show ?case
  proof cases
    case ag
    from g obtain answer tc rest where
      m: "model (messages state) = Inr (answer, tc # rest)" by blast
    let ?s' = "(state\<lparr>messages := messages state @ [AIMessage answer (tc # rest)]\<rparr>,
                out\<lparr>model_calls := Suc (model_calls out)\<rparr>)"
    have st: "step model executor agent_node (state, out) = Inr (action_node, ?s')"
      using m by (rule step_agent_continue)
    have "action_node = agent_node \<or>
       (action_node = action_node \<and> messages (fst ?s') \<noteq> [] \<and>
        (\<exists>answer tc rest. last (messages (fst ?s')) = AIMessage answer (tc # rest)))"
      by simp
    from Suc.IH [OF this] st show ?thesis
      unfolding s ag by (simp del: step.simps)
  next
    case ac
    then obtain answer tc rest where
      l: "last (messages state) = AIMessage answer (tc # rest)" by blast
    obtain r w' where t: "executor tc (world out) = (r, w')"
      by (cases "executor tc (world out)")
    show ?thesis
    proof (cases r)
      case (Inl e)
      with t have "step model executor action_node (state, out) = Inl e"
        using step_action_raises [where executor = executor and tc = tc and model = model,
            OF ac(2) l]
        by simp
      with t Inl show ?thesis
        unfolding s ac(1) by (auto simp del: step.simps)
    next
      case (Inr res)
      let ?s' = "(state\<lparr>messages := messages state @ [ToolMessage res (tc_id tc)]\<rparr>,
                  out\<lparr>world := w'\<rparr>)"
      from t Inr have st: "step model executor action_node (state, out) = Inr (agent_node, ?s')"
        using step_action [where executor = executor and tc = tc and model = model,
            OF ac(2) l]
        by simp
      have "agent_node = agent_node \<or>
         (agent_node = action_node \<and> messages (fst ?s') \<noteq> [] \<and>
          (\<exists>answer tc rest. last (messages (fst ?s')) = AIMessage answer (tc # rest)))"
        by simp
      from Suc.IH [OF this] st show ?thesis
        unfolding s ac(1) by (simp del: step.simps)
    qed
  qed
qed

text \<open>With an executor that returns on every call, the failure is the recursion limit's.\<close>

lemma greedy_run_hits_recursion_limit:
  assumes "\<forall>ms. \<exists>answer tc rest. model ms = Inr (answer, tc # rest)"
    and "\<forall>tc w. \<exists>res w'. executor tc w = (Inr res, w')"
  shows "run_graph limit model executor agent_node s = Inl GraphRecursionError"
proof -
  from greedy_run_fails [OF assms(1), of agent_node s limit executor]
  obtain e where e: "run_graph limit model executor agent_node s = Inl e"
    "e = GraphRecursionError \<or> (\<exists>tc w w'. executor tc w = (Inl e, w'))"
    by auto
  from e(2) assms(2) have "e = GraphRecursionError" by (metis Inl_Inr_False prod.inject)
  with e(1) show ?thesis by simp
qed




end
